theory Spec2Isabelle
  imports Complex_Main "HOL-Library.Multiset"
begin

section \<open>The Public Line: a shallow embedding of the animation core\<close>

text \<open>
  The repository is TypeScript. Its numbers are IEEE doubles; here a number is a
  \<^typ>\<open>real\<close> (exact arithmetic, no NaN, no infinities), and a number the code
  has made integral with \<open>Math.floor\<close> is an \<^typ>\<open>int\<close>. Array indices and
  the entries of the \<open>Uint8Array\<close> tables are \<^typ>\<open>nat\<close>. Strings are
  \<^typ>\<open>string\<close>. Where the code calls into the JavaScript runtime for something this
  model cannot compute from a real (the shortest decimal form of a double), that
  function is a parameter of the definition.
\<close>

subsection \<open>JavaScript arithmetic\<close>

text \<open>
  The remainder operator \<open>%\<close> of JavaScript truncates towards zero: the result has the
  sign of the dividend. \<open>js_rem\<close> is \<open>%\<close> on numbers, \<open>js_rem_int\<close> the same
  operator on integral values. The code divides by the constants \<open>60000\<close> and
  \<open>2^32\<close> only, never by 0.
\<close>

definition js_trunc :: "real \<Rightarrow> int" where
  "js_trunc q = (if 0 \<le> q then \<lfloor>q\<rfloor> else \<lceil>q\<rceil>)"

definition js_rem :: "real \<Rightarrow> real \<Rightarrow> real" where
  "js_rem a b = a - b * real_of_int (js_trunc (a / b))"

definition js_rem_int :: "int \<Rightarrow> int \<Rightarrow> int" where
  "js_rem_int a m = (if a < 0 then - ((- a) mod m) else a mod m)"

subsection \<open>utils/geometry.ts\<close>

text \<open>The fields \<open>x\<close> and \<open>y\<close> of a \<open>Point\<close> are \<open>px\<close> and \<open>py\<close> here.\<close>

record Point =
  px :: real
  py :: real

text \<open>Decimal digits of a natural number, most significant first.\<close>

definition digit_char :: "nat \<Rightarrow> char" where
  "digit_char d = ''0123456789'' ! d"

function digits :: "nat \<Rightarrow> string" where
  "digits n = (if n < 10 then [digit_char n] else digits (n div 10) @ [digit_char (n mod 10)])"
  by pat_completeness auto
termination
  by (relation "measure id") auto

declare digits.simps [simp del]

text \<open>
  \<open>Number.prototype.toFixed(1)\<close>, after ECMA-262: a negative number gives a minus sign
  and is negated; a number of at least \<open>10^21\<close> is printed by the runtime's
  \<open>Number::toString\<close> (the parameter \<open>numToString\<close>); otherwise \<open>n\<close> is the integer
  for which \<open>n / 10\<close> is nearest to the number, the larger one of two, and the result is
  the digits of \<open>n\<close> with a point before the last one.
\<close>

definition toFixed1 :: "(real \<Rightarrow> string) \<Rightarrow> real \<Rightarrow> string" where
  "toFixed1 numToString v =
     (let s = (if v < 0 then ''-'' else '''');
          a = (if v < 0 then - v else v)
      in if 10 ^ 21 \<le> a then s @ numToString a
         else let n = nat \<lfloor>a * 10 + 1 / 2\<rfloor>
              in s @ digits (n div 10) @ ''.'' @ digits (n mod 10))"

text \<open>The \<open>for\<close> loop of \<open>getSmoothPath\<close>: \<open>i\<close> runs from 1 while \<open>i < points.length - 1\<close>.\<close>

function smoothLoop :: "(real \<Rightarrow> string) \<Rightarrow> Point list \<Rightarrow> nat \<Rightarrow> string \<Rightarrow> string" where
  "smoothLoop ts points i d =
     (if i < length points - 1 then
        let p0 = points ! i;
            p1 = points ! (i + 1);
            midX = (px p0 + px p1) / 2;
            midY = (py p0 + py p1) / 2
        in smoothLoop ts points (i + 1)
             (d @ '' Q '' @ toFixed1 ts (px p0) @ '' '' @ toFixed1 ts (py p0) @ '', ''
                @ toFixed1 ts midX @ '' '' @ toFixed1 ts midY)
      else d)"
  by pat_completeness auto
termination
  by (relation "measure (\<lambda>(ts, points, i, d). length points - i)") auto

declare smoothLoop.simps [simp del]

definition getSmoothPath :: "(real \<Rightarrow> string) \<Rightarrow> Point list \<Rightarrow> string" where
  "getSmoothPath ts points =
     (if length points < 2 then ''''
      else
        let d = ''M '' @ toFixed1 ts (px (points ! 0)) @ '' '' @ toFixed1 ts (py (points ! 0));
            d' = smoothLoop ts points 1 d;
            last_pt = points ! (length points - 1)
        in d' @ '' T '' @ toFixed1 ts (px last_pt) @ '' '' @ toFixed1 ts (py last_pt))"

subsection \<open>utils/storage.ts\<close>

record Stroke =
  stroke_points :: "Point list"
  stroke_color :: string
  stroke_width :: real
  isEraser :: bool

record DrawingFragment =
  frag_id :: string
  frameNumber :: int
  author :: string
  timestamp :: real
  strokes :: "Stroke list"
  frag_width :: real
  frag_height :: real

definition STORAGE_KEY :: string where
  "STORAGE_KEY = ''public_line_fragments''"

text \<open>
  The browser as far as \<open>Storage\<close> touches it. \<open>localStorage\<close> holds one string per
  key; when the user agent denies storage every access throws (\<open>storage_blocked\<close>);
  \<open>setItem\<close> throws when the user agent refuses the new value, as it does when the
  quota is exceeded (\<open>storage_rejects\<close>), and then stores nothing. \<open>console_errors\<close>
  is what \<open>console.error\<close> has been given so far.
\<close>

datatype js_error = SecurityError | QuotaExceededError | SyntaxError | TypeError

record Browser =
  storage_blocked :: bool
  storage_items :: "string \<rightharpoonup> string"
  storage_rejects :: "string \<Rightarrow> string \<Rightarrow> bool"
  console_errors :: "(string \<times> js_error) list"

definition getItem :: "Browser \<Rightarrow> string \<Rightarrow> js_error + string option" where
  "getItem b k = (if storage_blocked b then Inl SecurityError else Inr (storage_items b k))"

definition setItem :: "Browser \<Rightarrow> string \<Rightarrow> string \<Rightarrow> js_error + Browser" where
  "setItem b k v =
     (if storage_blocked b then Inl SecurityError
      else if storage_rejects b k v then Inl QuotaExceededError
      else Inr (b\<lparr>storage_items := (storage_items b)(k \<mapsto> v)\<rparr>))"

definition console_error :: "string \<Rightarrow> js_error \<Rightarrow> Browser \<Rightarrow> Browser" where
  "console_error msg e b = b\<lparr>console_errors := console_errors b @ [(msg, e)]\<rparr>"

text \<open>
  What \<open>JSON.parse\<close> gives back is typed \<open>DrawingFragment[]\<close> by a cast only: it is an
  array, or some other JSON value (\<open>null\<close>, an object, a number), which has no
  \<open>push\<close> and no \<open>forEach\<close>. \<open>JSON.parse\<close> and \<open>JSON.stringify\<close> belong to the
  runtime and are parameters (\<open>parse\<close>, \<open>stringify\<close>); \<open>Inl\<close> is the exception thrown.
\<close>

datatype parsed = FragmentArray "DrawingFragment list" | NotAnArray

text \<open>The \<open>try\<close> block of \<open>getAllFragments\<close>; an empty string is falsy like \<open>null\<close>.\<close>

definition getAllFragments_try ::
    "(string \<Rightarrow> js_error + parsed) \<Rightarrow> Browser \<Rightarrow> js_error + parsed" where
  "getAllFragments_try parse b =
     (case getItem b STORAGE_KEY of
        Inl e \<Rightarrow> Inl e
      | Inr None \<Rightarrow> Inr (FragmentArray [])
      | Inr (Some data) \<Rightarrow> (if data = [] then Inr (FragmentArray []) else parse data))"

definition getAllFragments ::
    "(string \<Rightarrow> js_error + parsed) \<Rightarrow> Browser \<Rightarrow> parsed \<times> Browser" where
  "getAllFragments parse b =
     (case getAllFragments_try parse b of
        Inr v \<Rightarrow> (v, b)
      | Inl e \<Rightarrow> (FragmentArray [], console_error ''Failed to load drawings'' e b))"

text \<open>
  The \<open>try\<close> block of \<open>saveFragment\<close>. An exception leaves with the browser as it is
  at that moment, so what \<open>getAllFragments\<close> logged stays logged.
\<close>

definition saveFragment_try ::
    "(string \<Rightarrow> js_error + parsed) \<Rightarrow> (DrawingFragment list \<Rightarrow> js_error + string) \<Rightarrow>
     Browser \<Rightarrow> DrawingFragment \<Rightarrow> (js_error \<times> Browser) + Browser" where
  "saveFragment_try parse stringify b fragment =
     (case getAllFragments parse b of
        (NotAnArray, b1) \<Rightarrow> Inl (TypeError, b1)
      | (FragmentArray existing, b1) \<Rightarrow>
          (case stringify (existing @ [fragment]) of
             Inl e \<Rightarrow> Inl (e, b1)
           | Inr s \<Rightarrow>
               (case setItem b1 STORAGE_KEY s of
                  Inl e \<Rightarrow> Inl (e, b1)
                | Inr b2 \<Rightarrow> Inr b2)))"

definition saveFragment ::
    "(string \<Rightarrow> js_error + parsed) \<Rightarrow> (DrawingFragment list \<Rightarrow> js_error + string) \<Rightarrow>
     Browser \<Rightarrow> DrawingFragment \<Rightarrow> Browser" where
  "saveFragment parse stringify b fragment =
     (case saveFragment_try parse stringify b fragment of
        Inr b' \<Rightarrow> b'
      | Inl (e, b') \<Rightarrow> console_error ''Failed to save drawing'' e b')"

text \<open>The \<open>forEach\<close> of \<open>getFragmentsByFrame\<close>: one pass, appending to the frame's list.\<close>

definition addToFrame ::
    "(int \<rightharpoonup> DrawingFragment list) \<Rightarrow> DrawingFragment \<Rightarrow> (int \<rightharpoonup> DrawingFragment list)" where
  "addToFrame m frag =
     (let m1 = (case m (frameNumber frag) of None \<Rightarrow> m(frameNumber frag \<mapsto> []) | Some _ \<Rightarrow> m)
      in m1(frameNumber frag \<mapsto> (case m1 (frameNumber frag) of None \<Rightarrow> [] | Some l \<Rightarrow> l) @ [frag]))"

definition groupByFrame :: "DrawingFragment list \<Rightarrow> (int \<rightharpoonup> DrawingFragment list)" where
  "groupByFrame all_frags = foldl addToFrame Map.empty all_frags"

text \<open>\<open>getFragmentsByFrame\<close> has no \<open>try\<close>: \<open>forEach\<close> on a value that is no array throws.\<close>

definition getFragmentsByFrame ::
    "(string \<Rightarrow> js_error + parsed) \<Rightarrow> Browser \<Rightarrow>
     js_error \<times> Browser + (int \<rightharpoonup> DrawingFragment list) \<times> Browser" where
  "getFragmentsByFrame parse b =
     (case getAllFragments parse b of
        (NotAnArray, b1) \<Rightarrow> Inl (TypeError, b1)
      | (FragmentArray all_frags, b1) \<Rightarrow> Inr (groupByFrame all_frags, b1))"

subsection \<open>utils/noise.ts: the constructor of \<open>SimplexNoise\<close>\<close>

definition F3 :: real where
  "F3 = 1 / 3"

definition G3 :: real where
  "G3 = 1 / 6"

text \<open>
  The object's four arrays. \<open>p_tab\<close> is the field \<open>p\<close>. The entries of the three
  \<open>Uint8Array\<close>s are naturals; every value the constructor stores is below 256
  (\<open>table_entries_bounded\<close>), so no store wraps.
\<close>

record SimplexNoise =
  p_tab :: "nat list"
  perm :: "nat list"
  permMod12 :: "nat list"
  grad3 :: "real list"

definition grad3_init :: "real list" where
  "grad3_init =
     [1, 1, 0, -1, 1, 0, 1, -1, 0, -1, -1, 0,
      1, 0, 1, -1, 0, 1, 1, 0, -1, -1, 0, -1,
      0, 1, 1, 0, -1, 1, 0, 1, -1, 0, -1, -1]"

text \<open>\<open>currentSeed\<close> after the normalisation of the seed: an integer.\<close>

definition normalizeSeed :: "real \<Rightarrow> int" where
  "normalizeSeed seed =
     (if seed < 1 \<and> seed > 0 then \<lfloor>seed * 4294967296\<rfloor> else \<lfloor>seed\<rfloor>)"

text \<open>
  \<open>nextRandom\<close> updates \<open>currentSeed\<close> and returns it divided by \<open>2^32\<close>. While
  \<open>currentSeed\<close> is below \<open>2^32\<close> in magnitude, as it is from the second call on,
  the product and the sum are below \<open>2^53\<close> and the doubles of the code compute them
  exactly, as the integers here do.
\<close>

definition nextSeed :: "int \<Rightarrow> int" where
  "nextSeed currentSeed = js_rem_int (currentSeed * 1664525 + 1013904223) 4294967296"

definition nextRandom :: "int \<Rightarrow> real \<times> int" where
  "nextRandom currentSeed = (real_of_int (nextSeed currentSeed) / 4294967296, nextSeed currentSeed)"

text \<open>
  The destructuring swap \<open>[p[i], p[r]] = [p[r], p[i]]\<close> reads \<open>p[r]\<close> and
  \<open>p[i]\<close>, then writes \<open>p[i]\<close>, then \<open>p[r]\<close>. An index outside the typed array
  reads \<open>undefined\<close>, which a \<open>Uint8Array\<close> stores as 0, and a write there is
  dropped. \<open>i\<close> is always inside.
\<close>

definition swapEntries :: "nat list \<Rightarrow> nat \<Rightarrow> int \<Rightarrow> nat list" where
  "swapEntries p i r =
     (let in_range = (0 \<le> r \<and> r < int (length p));
          from_r = (if in_range then p ! nat r else 0);
          from_i = p ! i;
          p1 = p[i := from_r]
      in if in_range then p1[nat r := from_i] else p1)"

text \<open>The shuffle, \<open>for (i = 255; i > 0; i--)\<close>, as recursion on \<open>i\<close>.\<close>

fun shuffle :: "nat \<Rightarrow> int \<Rightarrow> nat list \<Rightarrow> nat list" where
  "shuffle 0 currentSeed p = p"
| "shuffle (Suc n) currentSeed p =
     (let i = Suc n;
          (rnd, seed') = nextRandom currentSeed;
          r = \<lfloor>rnd * real (i + 1)\<rfloor>
      in shuffle n seed' (swapEntries p i r))"

declare shuffle.simps(2) [simp del]

text \<open>
  The last loop fills \<open>perm\<close> and \<open>permMod12\<close>, both created zero-filled with 512
  entries; \<open>i & 255\<close> is a bitwise and.
\<close>

definition fillStep :: "nat list \<Rightarrow> nat list \<times> nat list \<Rightarrow> nat \<Rightarrow> nat list \<times> nat list" where
  "fillStep p tabs i =
     (let perm1 = (fst tabs)[i := p ! (and i 255)];
          permMod12_1 = (snd tabs)[i := (perm1 ! i) mod 12]
      in (perm1, permMod12_1))"

definition fillTables :: "nat list \<Rightarrow> nat list \<times> nat list" where
  "fillTables p = foldl (fillStep p) (replicate 512 0, replicate 512 0) [0..<512]"

definition newSimplexNoise :: "real \<Rightarrow> SimplexNoise" where
  "newSimplexNoise seed =
     (let p = shuffle 255 (normalizeSeed seed) [0..<256];
          tabs = fillTables p
      in \<lparr>p_tab = p, perm = fst tabs, permMod12 = snd tabs, grad3 = grad3_init\<rparr>)"

subsection \<open>utils/noise.ts: \<open>noise3D\<close>\<close>

text \<open>
  One corner of the tetrahedron: the block the source writes four times, for the offset
  \<open>(x, y, z)\<close> of the corner and the index \<open>idx\<close> it hashes to.
\<close>

definition corner3D :: "SimplexNoise \<Rightarrow> nat \<Rightarrow> real \<Rightarrow> real \<Rightarrow> real \<Rightarrow> real" where
  "corner3D g idx x y z =
     (let t = 0.6 - x * x - y * y - z * z
      in if t < 0 then 0
         else let gi = (permMod12 g ! idx) * 3;
                  t2 = t * t
              in t2 * t2 * (grad3 g ! gi * x + grad3 g ! (gi + 1) * y + grad3 g ! (gi + 2) * z))"

text \<open>The order of \<open>x0\<close>, \<open>y0\<close>, \<open>z0\<close> picks the offsets of the second and third corner.\<close>

definition simplexOrder :: "real \<Rightarrow> real \<Rightarrow> real \<Rightarrow> (nat \<times> nat \<times> nat) \<times> (nat \<times> nat \<times> nat)" where
  "simplexOrder x0 y0 z0 =
     (if x0 \<ge> y0 then
        (if y0 \<ge> z0 then ((1, 0, 0), (1, 1, 0))
         else if x0 \<ge> z0 then ((1, 0, 0), (1, 0, 1))
         else ((0, 0, 1), (1, 0, 1)))
      else
        (if y0 < z0 then ((0, 0, 1), (0, 1, 1))
         else if x0 < z0 then ((0, 1, 0), (0, 1, 1))
         else ((0, 1, 0), (1, 1, 0))))"

definition noise3D :: "SimplexNoise \<Rightarrow> real \<Rightarrow> real \<Rightarrow> real \<Rightarrow> real" where
  "noise3D g xin yin zin =
     (let s = (xin + yin + zin) * F3;
          i = \<lfloor>xin + s\<rfloor>;
          j = \<lfloor>yin + s\<rfloor>;
          k = \<lfloor>zin + s\<rfloor>;
          t = real_of_int (i + j + k) * G3;
          X0 = real_of_int i - t;
          Y0 = real_of_int j - t;
          Z0 = real_of_int k - t;
          x0 = xin - X0;
          y0 = yin - Y0;
          z0 = zin - Z0;
          ((i1, j1, k1), (i2, j2, k2)) = simplexOrder x0 y0 z0;
          x1 = x0 - real i1 + G3;
          y1 = y0 - real j1 + G3;
          z1 = z0 - real k1 + G3;
          x2 = x0 - real i2 + 2 * G3;
          y2 = y0 - real j2 + 2 * G3;
          z2 = z0 - real k2 + 2 * G3;
          x3 = x0 - 1 + 3 * G3;
          y3 = y0 - 1 + 3 * G3;
          z3 = z0 - 1 + 3 * G3;
          ii = nat (and i 255);
          jj = nat (and j 255);
          kk = nat (and k 255);
          n0 = corner3D g (ii + perm g ! (jj + perm g ! kk)) x0 y0 z0;
          n1 = corner3D g (ii + i1 + perm g ! (jj + j1 + perm g ! (kk + k1))) x1 y1 z1;
          n2 = corner3D g (ii + i2 + perm g ! (jj + j2 + perm g ! (kk + k2))) x2 y2 z2;
          n3 = corner3D g (ii + 1 + perm g ! (jj + 1 + perm g ! (kk + 1))) x3 y3 z3
      in 32 * (n0 + n1 + n2 + n3))"

subsection \<open>components/AnimationCanvas.tsx\<close>

definition FPS :: real where
  "FPS = 10"

definition FRAME_INTERVAL :: real where
  "FRAME_INTERVAL = 1000 / FPS"

definition POINT_COUNT :: nat where
  "POINT_COUNT = 7"

definition SPATIAL_FREQUENCY :: real where
  "SPATIAL_FREQUENCY = 0.3"

definition LOOP_MINUTES :: real where
  "LOOP_MINUTES = 1"

definition LOOP_DURATION_MS :: real where
  "LOOP_DURATION_MS = LOOP_MINUTES * 60 * 1000"

definition NOISE_RADIUS :: real where
  "NOISE_RADIUS = 86"

definition FIXED_SEED :: real where
  "FIXED_SEED = 12345"

text \<open>
  \<open>noiseRef.current\<close> is \<open>null\<close> until the mount effect has stored
  \<open>new SimplexNoise(FIXED_SEED)\<close> there. \<open>generatePoint\<close> is the body of the loop
  of \<open>generatePoints\<close> for the index \<open>i\<close>, \<open>w\<close> and \<open>h\<close> are \<open>width\<close> and
  \<open>height\<close>. \<open>Math.PI\<close>, \<open>Math.cos\<close> and \<open>Math.sin\<close> are the exact \<open>pi\<close>,
  \<open>cos\<close> and \<open>sin\<close> here; the doubles of the code are near them, and unlike them
  have no exact period. The theorems about \<open>generatePoints\<close> use of the three only
  that equal arguments give equal values.
\<close>

definition generatePoint :: "SimplexNoise \<Rightarrow> real \<Rightarrow> real \<Rightarrow> real \<Rightarrow> real \<Rightarrow> nat \<Rightarrow> Point" where
  "generatePoint noise timeX timeY w h i =
     (let t = real i / real (POINT_COUNT - 1);
          baseX = w * t;
          baseY = h / 2;
          noiseValX = noise3D noise (real i * SPATIAL_FREQUENCY) (10 + timeX) (10 + timeY);
          noiseValY = noise3D noise (real i * SPATIAL_FREQUENCY + 100) (20 + timeX) (20 + timeY);
          x = (if i \<noteq> 0 \<and> i \<noteq> POINT_COUNT - 1 then baseX + noiseValX * (w * 0.15) else baseX);
          y = baseY + noiseValY * (h * 0.4)
      in \<lparr>px = x, py = y\<rparr>)"

definition generatePoints :: "SimplexNoise option \<Rightarrow> real \<Rightarrow> real \<Rightarrow> real \<Rightarrow> Point list" where
  "generatePoints noiseRef elapsedTime w h =
     (case noiseRef of
        None \<Rightarrow> []
      | Some noise \<Rightarrow>
          let angle = js_rem elapsedTime LOOP_DURATION_MS / LOOP_DURATION_MS * pi * 2;
              timeX = cos angle * NOISE_RADIUS;
              timeY = sin angle * NOISE_RADIUS
          in map (generatePoint noise timeX timeY w h) [0..<POINT_COUNT])"

text \<open>
  The component's state as far as \<open>renderFrame\<close> writes it; \<open>reportedTime\<close> is what
  \<open>onTimeUpdate\<close> was last called with (the \<open>currentTime\<close> of \<open>App\<close>). \<open>svg\<close> is the
  client size of the mounted element, \<open>None\<close> while \<open>svgRef.current\<close> is \<open>null\<close>.
\<close>

record Canvas =
  pathData :: string
  currentFrame :: int
  reportedTime :: real

definition renderFrame ::
    "(real \<Rightarrow> string) \<Rightarrow> SimplexNoise option \<Rightarrow> (real \<times> real) option \<Rightarrow> real \<Rightarrow> Canvas \<Rightarrow> Canvas" where
  "renderFrame ts noiseRef svg time c =
     (case svg of
        None \<Rightarrow> c
      | Some (clientWidth, clientHeight) \<Rightarrow>
          let points = generatePoints noiseRef time clientWidth clientHeight;
              d = getSmoothPath ts points;
              frame = \<lfloor>time / 100\<rfloor> + 1
          in c\<lparr>pathData := d, currentFrame := frame, reportedTime := time\<rparr>)"

text \<open>\<open>drawings[currentFrame] || []\<close>: an array is truthy, also an empty one.\<close>

definition activeDrawings :: "(int \<rightharpoonup> DrawingFragment list) \<Rightarrow> int \<Rightarrow> DrawingFragment list" where
  "activeDrawings drawings frame = (case drawings frame of None \<Rightarrow> [] | Some ds \<Rightarrow> ds)"

text \<open>\<open>Array.prototype.join\<close>.\<close>

fun join :: "string \<Rightarrow> string list \<Rightarrow> string" where
  "join sep [] = ''''"
| "join sep [s] = s"
| "join sep (s # t # rest) = s @ sep @ join sep (t # rest)"

text \<open>
  The \<open>path\<close> element painted for a stroke, or \<open>None\<close> where the callback returns
  \<open>null\<close>. A template literal prints a number with the runtime's \<open>Number::toString\<close>
  (the parameter \<open>ts\<close>).
\<close>

record SvgPath =
  path_d :: string
  path_stroke :: string
  path_strokeWidth :: real

definition renderStroke :: "(real \<Rightarrow> string) \<Rightarrow> Stroke \<Rightarrow> SvgPath option" where
  "renderStroke ts stroke =
     (if length (stroke_points stroke) < 2 then None
      else
        let d = ''M '' @ ts (px (stroke_points stroke ! 0)) @ '' '' @ ts (py (stroke_points stroke ! 0)) @ '' ''
                @ join '' '' (map (\<lambda>p. ''L '' @ ts (px p) @ '' '' @ ts (py p)) (drop 1 (stroke_points stroke)))
        in if isEraser stroke then None
           else Some \<lparr>path_d = d, path_stroke = stroke_color stroke, path_strokeWidth = stroke_width stroke\<rparr>)"

text \<open>The \<open>g\<close> element of a drawing: its key and the paths of its strokes that are painted.\<close>

definition renderDrawing :: "(real \<Rightarrow> string) \<Rightarrow> DrawingFragment \<Rightarrow> string \<times> SvgPath list" where
  "renderDrawing ts drawing = (frag_id drawing, List.map_filter (renderStroke ts) (strokes drawing))"

definition renderOverlay ::
    "(real \<Rightarrow> string) \<Rightarrow> (int \<rightharpoonup> DrawingFragment list) \<Rightarrow> int \<Rightarrow> (string \<times> SvgPath list) list" where
  "renderOverlay ts drawings frame = map (renderDrawing ts) (activeDrawings drawings frame)"

subsection \<open>App.tsx\<close>

definition getFrameNumber :: "real \<Rightarrow> int" where
  "getFrameNumber time = \<lfloor>time / 100\<rfloor> + 1"

definition sanitizeStroke :: "Stroke \<Rightarrow> Stroke" where
  "sanitizeStroke s =
     \<lparr>stroke_points = map (\<lambda>p. \<lparr>px = px p, py = py p\<rparr>) (stroke_points s),
      stroke_color = stroke_color s, stroke_width = stroke_width s, isEraser = isEraser s\<rparr>"

text \<open>
  The fragment \<open>handleSubmitDrawing\<close> builds; \<open>uuid\<close> is \<open>crypto.randomUUID()\<close>, \<open>now\<close>
  is \<open>Date.now()\<close>, \<open>dims\<close> the window's dimensions.
\<close>

definition newFragment ::
    "string \<Rightarrow> real \<Rightarrow> real \<times> real \<Rightarrow> real \<Rightarrow> Stroke list \<Rightarrow> string \<Rightarrow> DrawingFragment" where
  "newFragment uuid now dims frozenTime strokes_in author_in =
     \<lparr>frag_id = uuid, frameNumber = getFrameNumber frozenTime, author = author_in,
      timestamp = now, strokes = map sanitizeStroke strokes_in,
      frag_width = fst dims, frag_height = snd dims\<rparr>"

text \<open>
  \<open>handleSubmitDrawing\<close>: nothing happens unless a time is frozen; otherwise the
  fragment is saved and the drawings are loaded again. The result is the browser and
  the new \<open>drawings\<close> state (\<open>Inl\<close>: \<open>getFragmentsByFrame\<close> threw).
\<close>

definition handleSubmitDrawing ::
    "(string \<Rightarrow> js_error + parsed) \<Rightarrow> (DrawingFragment list \<Rightarrow> js_error + string) \<Rightarrow>
     string \<Rightarrow> real \<Rightarrow> real \<times> real \<Rightarrow> real option \<Rightarrow> Stroke list \<Rightarrow> string \<Rightarrow>
     Browser \<times> (int \<rightharpoonup> DrawingFragment list) \<Rightarrow>
     js_error \<times> Browser + Browser \<times> (int \<rightharpoonup> DrawingFragment list)" where
  "handleSubmitDrawing parse stringify uuid now dims frozenTime strokes_in author_in st =
     (case frozenTime of
        None \<Rightarrow> Inr st
      | Some T \<Rightarrow>
          let b1 = saveFragment parse stringify (fst st)
                     (newFragment uuid now dims T strokes_in author_in)
          in (case getFragmentsByFrame parse b1 of
                Inl err \<Rightarrow> Inl err
              | Inr (m, b2) \<Rightarrow> Inr (b2, m)))"

section \<open>Notions of the specification\<close>

text \<open>
  The definitions of this section are not translated from the code: they say what the
  specification's words mean, so that the code of the sections above can be compared
  with them.
\<close>

subsection \<open>The segments of a path\<close>

text \<open>
  A path starts with a move to a point, continues with quadratic segments, each given by
  its control point and its end point, and closes with a smooth segment to a point.
  \<open>tok\<close> prints one coordinate.
\<close>

definition midpointOf :: "Point \<Rightarrow> Point \<Rightarrow> Point" where
  "midpointOf a b = \<lparr>px = (px a + px b) / 2, py = (py a + py b) / 2\<rparr>"

definition coordPair :: "(real \<Rightarrow> string) \<Rightarrow> Point \<Rightarrow> string" where
  "coordPair tok q = tok (px q) @ '' '' @ tok (py q)"

definition moveTo :: "(real \<Rightarrow> string) \<Rightarrow> Point \<Rightarrow> string" where
  "moveTo tok q = ''M '' @ coordPair tok q"

definition quadTo :: "(real \<Rightarrow> string) \<Rightarrow> Point \<Rightarrow> Point \<Rightarrow> string" where
  "quadTo tok ctrl endp = '' Q '' @ coordPair tok ctrl @ '', '' @ coordPair tok endp"

definition smoothTo :: "(real \<Rightarrow> string) \<Rightarrow> Point \<Rightarrow> string" where
  "smoothTo tok q = '' T '' @ coordPair tok q"

text \<open>
  The interior segments of a point list: for each interior index \<open>i\<close>, the segment with
  control point \<open>i\<close> that ends at the midpoint of the points \<open>i\<close> and \<open>i + 1\<close>.
\<close>

definition interiorSegments :: "(real \<Rightarrow> string) \<Rightarrow> Point list \<Rightarrow> string list" where
  "interiorSegments tok pts =
     map (\<lambda>i. quadTo tok (pts ! i) (midpointOf (pts ! i) (pts ! (i + 1)))) [1..<length pts - 1]"

subsection \<open>Reading a printed coordinate\<close>

text \<open>
  The number a decimal token denotes: an optional minus sign, the digits before the
  point, the digits after it.
\<close>

definition digit_val :: "char \<Rightarrow> nat" where
  "digit_val c = of_char c - 48"

definition readDigits :: "string \<Rightarrow> nat" where
  "readDigits s = foldl (\<lambda>acc c. 10 * acc + digit_val c) 0 s"

definition readUnsigned :: "string \<Rightarrow> real" where
  "readUnsigned s =
     (let ip = takeWhile (\<lambda>c. c \<noteq> CHR ''.'') s;
          fp = drop 1 (dropWhile (\<lambda>c. c \<noteq> CHR ''.'') s)
      in real (readDigits ip) + real (readDigits fp) / 10 ^ length fp)"

definition readFixed1 :: "string \<Rightarrow> real" where
  "readFixed1 s =
     (case s of
        [] \<Rightarrow> 0
      | c # rest \<Rightarrow> if c = CHR ''-'' then - readUnsigned rest else readUnsigned s)"

text \<open>
  A number cut off after its first fractional digit (\<open>truncTenth\<close>), and a number
  rounded to the nearest tenth, a tie going away from zero (\<open>roundTenth\<close>).
\<close>

definition truncTenth :: "real \<Rightarrow> real" where
  "truncTenth v = real_of_int (js_trunc (v * 10)) / 10"

definition roundTenth :: "real \<Rightarrow> real" where
  "roundTenth v =
     (if v < 0 then - (real_of_int \<lfloor>(- v) * 10 + 1 / 2\<rfloor> / 10)
      else real_of_int \<lfloor>v * 10 + 1 / 2\<rfloor> / 10)"

subsection \<open>The polyline of a stroke\<close>

text \<open>
  A polyline through a list of points, in their order: a move to the first point and a
  line to each of the others.
\<close>

definition polylineData :: "(real \<Rightarrow> string) \<Rightarrow> Point list \<Rightarrow> string" where
  "polylineData tok pts =
     ''M '' @ coordPair tok (hd pts) @ concat (map (\<lambda>q. '' L '' @ coordPair tok q) (tl pts))"

definition polyline :: "(real \<Rightarrow> string) \<Rightarrow> Stroke \<Rightarrow> SvgPath" where
  "polyline tok s =
     \<lparr>path_d = polylineData tok (stroke_points s), path_stroke = stroke_color s,
      path_strokeWidth = stroke_width s\<rparr>"

subsection \<open>Sample inputs\<close>






text \<open>A generator object with the given \<open>p\<close> and constant tables.\<close>

definition flatNoise :: "nat list \<Rightarrow> SimplexNoise" where
  "flatNoise p =
     \<lparr>p_tab = p, perm = replicate 512 0, permMod12 = replicate 512 0, grad3 = grad3_init\<rparr>"

section \<open>The curve builder\<close>

subsection \<open>The loop in closed form\<close>

lemma smoothLoop_unfold:
  "smoothLoop ts pts i d =
     d @ concat (map (\<lambda>i. quadTo (toFixed1 ts) (pts ! i) (midpointOf (pts ! i) (pts ! (i + 1))))
                  [i..<length pts - 1])"
proof (induction ts pts i d rule: smoothLoop.induct)
  case (1 ts points i d)
  show ?case
  proof (cases "i < length points - 1")
    case True
    then have upt: "[i..<length points - 1] = i # [i + 1..<length points - 1]"
      by (simp add: upt_conv_Cons)
    note IH = 1 [OF True refl refl refl refl]
    show ?thesis
      by (subst smoothLoop.simps)
         (simp only: True if_True Let_def IH upt list.map concat.simps append_assoc
            quadTo_def coordPair_def midpointOf_def Point.simps)
  next
    case False
    then show ?thesis
      by (subst smoothLoop.simps) simp
  qed
qed

lemma getSmoothPath_segments:
  "getSmoothPath ts pts =
     (if length pts < 2 then []
      else moveTo (toFixed1 ts) (pts ! 0) @ concat (interiorSegments (toFixed1 ts) pts)
           @ smoothTo (toFixed1 ts) (pts ! (length pts - 1)))"
  by (simp add: getSmoothPath_def Let_def smoothLoop_unfold interiorSegments_def moveTo_def
      smoothTo_def coordPair_def)

text \<open>
  Claim C4. \<open>getSmoothPath\<close> returns the empty string on fewer than 2 points. On
  two or more points it returns a move to the first point, then one quadratic segment
  for each interior point \<open>i\<close>, with control point \<open>i\<close> and the midpoint of the
  points \<open>i\<close> and \<open>i + 1\<close> as end point, \<open>N - 2\<close> of them for \<open>N\<close> points, then
  one smooth segment that ends at the last point; on exactly two points that is the
  move and the smooth segment to the second point. Every coordinate is printed by
  \<open>toFixed(1)\<close>.
\<close>

theorem getSmoothPath_shape:
  "getSmoothPath ts pts =
     (if length pts < 2 then []
      else moveTo (toFixed1 ts) (hd pts) @ concat (interiorSegments (toFixed1 ts) pts)
           @ smoothTo (toFixed1 ts) (last pts))
   \<and> length (interiorSegments (toFixed1 ts) pts) = length pts - 2
   \<and> interiorSegments (toFixed1 ts) pts =
       map (\<lambda>i. quadTo (toFixed1 ts) (pts ! i) (midpointOf (pts ! i) (pts ! (i + 1))))
         [1..<length pts - 1]
   \<and> getSmoothPath ts [a, b] = moveTo (toFixed1 ts) a @ smoothTo (toFixed1 ts) b"
proof -
  have hd0: "length pts \<ge> 2 \<Longrightarrow> pts ! 0 = hd pts"
    by (cases pts) auto
  have lastn: "length pts \<ge> 2 \<Longrightarrow> pts ! (length pts - 1) = last pts"
    by (cases pts) (auto simp: last_conv_nth)
  show ?thesis
    using hd0 lastn
    by (auto simp: getSmoothPath_segments interiorSegments_def)
qed


subsection \<open>What \<open>toFixed(1)\<close> prints\<close>

lemma digit_char_cases:
  "d < 10 \<Longrightarrow> digit_char d \<in> set ''0123456789'' \<and> digit_val (digit_char d) = d"
  by (auto simp: digit_char_def digit_val_def less_Suc_eq numeral_eq_Suc)

lemma set_digits: "set (digits n) \<subseteq> set ''0123456789''"
proof (induction n rule: digits.induct)
  case (1 n)
  show ?case
  proof (cases "n < 10")
    case True
    then show ?thesis
      using digit_char_cases [of n] by (subst digits.simps) simp
  next
    case False
    have "n mod 10 < 10" by simp
    then have "digit_char (n mod 10) \<in> set ''0123456789''"
      using digit_char_cases by blast
    then show ?thesis
      using False 1 by (subst digits.simps) simp
  qed
qed

lemma digits_nonempty: "digits n \<noteq> []"
  by (subst digits.simps) simp

lemma readDigits_digits: "readDigits (digits n) = n"
proof (induction n rule: digits.induct)
  case (1 n)
  show ?case
  proof (cases "n < 10")
    case True
    then show ?thesis
      using digit_char_cases [of n] by (subst digits.simps) (simp add: readDigits_def)
  next
    case False
    have "n mod 10 < 10" by simp
    then have dv: "digit_val (digit_char (n mod 10)) = n mod 10"
      using digit_char_cases by blast
    have IH: "readDigits (digits (n div 10)) = n div 10"
      using 1 False by simp
    have "readDigits (digits n) = 10 * readDigits (digits (n div 10)) + digit_val (digit_char (n mod 10))"
      using False by (subst digits.simps) (simp add: readDigits_def)
    then show ?thesis
      using IH dv by simp
  qed
qed

lemma digits_no_dot: "c \<in> set (digits n) \<Longrightarrow> c \<noteq> CHR ''.'' \<and> c \<noteq> CHR ''-''"
  using set_digits [of n] by auto

lemma readUnsigned_digits:
  assumes "b < 10"
  shows "readUnsigned (digits a @ CHR ''.'' # digits b) = real a + real b / 10"
proof -
  have nd: "\<And>c. c \<in> set (digits a) \<Longrightarrow> c \<noteq> CHR ''.''"
    using digits_no_dot by blast
  have tw: "takeWhile (\<lambda>c. c \<noteq> CHR ''.'') (digits a @ CHR ''.'' # digits b) = digits a"
    using nd by simp
  have dw: "dropWhile (\<lambda>c. c \<noteq> CHR ''.'') (digits a @ CHR ''.'' # digits b) = CHR ''.'' # digits b"
    using nd by simp
  have len: "length (digits b) = 1"
    using assms by (subst digits.simps) simp
  show ?thesis
    unfolding readUnsigned_def Let_def tw dw
    by (simp add: len readDigits_digits)
qed

lemma readFixed1_toFixed1:
  assumes "\<bar>v\<bar> < 10 ^ 21"
  shows "readFixed1 (toFixed1 ts v) = roundTenth v"
proof -
  define a where "a = \<bar>v\<bar>"
  define n where "n = nat \<lfloor>a * 10 + 1 / 2\<rfloor>"
  have a0: "0 \<le> a" by (simp add: a_def)
  have fl: "0 \<le> \<lfloor>a * 10 + 1 / 2\<rfloor>" using a0 by simp
  have m10: "n mod 10 < 10" by simp
  have un: "readUnsigned (digits (n div 10) @ CHR ''.'' # digits (n mod 10)) = real n / 10"
  proof -
    have "10 * (n div 10) + n mod 10 = n"
      by simp
    then have "real (10 * (n div 10) + n mod 10) = real n"
      by (rule arg_cong)
    then have "10 * real (n div 10) + real (n mod 10) = real n"
      by (simp only: of_nat_add of_nat_mult of_nat_numeral)
    then have "real (n div 10) + real (n mod 10) / 10 = real n / 10"
      by linarith
    then show ?thesis
      using readUnsigned_digits [OF m10, of "n div 10"] by simp
  qed
  have rn: "real n = real_of_int \<lfloor>a * 10 + 1 / 2\<rfloor>"
    using fl by (simp add: n_def)
  show ?thesis
  proof (cases "v < 0")
    case True
    then have av: "a = - v" by (simp add: a_def)
    have tf: "toFixed1 ts v = CHR ''-'' # digits (n div 10) @ CHR ''.'' # digits (n mod 10)"
      using True assms by (simp add: toFixed1_def Let_def n_def av)
    show ?thesis
      using True un rn by (simp add: tf readFixed1_def roundTenth_def av)
  next
    case False
    then have av: "a = v" by (simp add: a_def)
    have tf: "toFixed1 ts v = digits (n div 10) @ CHR ''.'' # digits (n mod 10)"
      using False assms by (simp add: toFixed1_def Let_def n_def av)
    obtain c rest where cr: "digits (n div 10) = c # rest"
      using digits_nonempty [of "n div 10"] by (cases "digits (n div 10)") auto
    have "c \<noteq> CHR ''-''"
      using digits_no_dot [of c "n div 10"] cr by simp
    then have "readFixed1 (toFixed1 ts v) = readUnsigned (toFixed1 ts v)"
      by (simp add: tf readFixed1_def cr)
    then show ?thesis
      using False un rn by (simp add: tf roundTenth_def av)
  qed
qed

lemma roundTenth_close: "\<bar>roundTenth v - v\<bar> \<le> 1 / 20"
proof -
  have key: "\<bar>real_of_int \<lfloor>w * 10 + 1 / 2\<rfloor> / 10 - w\<bar> \<le> 1 / 20" for w :: real
  proof -
    have "real_of_int \<lfloor>w * 10 + 1 / 2\<rfloor> \<le> w * 10 + 1 / 2"
      by (rule of_int_floor_le)
    moreover have "w * 10 + 1 / 2 < real_of_int \<lfloor>w * 10 + 1 / 2\<rfloor> + 1"
      by (rule floor_correct [THEN conjunct2, simplified])
    ultimately show ?thesis by (intro abs_leI) linarith+
  qed
  show ?thesis
  proof (cases "v < 0")
    case True
    have "\<bar>- (real_of_int \<lfloor>(- v) * 10 + 1 / 2\<rfloor> / 10) - v\<bar> =
          \<bar>real_of_int \<lfloor>(- v) * 10 + 1 / 2\<rfloor> / 10 - (- v)\<bar>"
      by (simp add: abs_minus_commute)
    then show ?thesis
      using True key [of "- v"] by (simp only: roundTenth_def if_True)
  next
    case False
    then show ?thesis
      using key [of v] by (simp only: roundTenth_def if_False)
  qed
qed

lemma digits_small: "n < 10 \<Longrightarrow> digits n = [digit_char n]"
  by (subst digits.simps) simp

lemma toFixed1_seven_eighths: "toFixed1 ts (7 / 8) = ''0.9''"
  by (simp add: toFixed1_def digit_char_def digits_small)

lemma toFixed1_zero: "toFixed1 ts 0 = ''0.0''"
  by (simp add: toFixed1_def digit_char_def digits_small)

lemma toFixed1_one: "toFixed1 ts 1 = ''1.0''"
  by (simp add: toFixed1_def digit_char_def digits_small)

lemma path_seven_eighths:
  "getSmoothPath ts [\<lparr>px = 7 / 8, py = 0\<rparr>, \<lparr>px = 1, py = 1\<rparr>] = ''M 0.9 0.0 T 1.0 1.0''"
  by (simp add: getSmoothPath_segments interiorSegments_def moveTo_def smoothTo_def
      coordPair_def toFixed1_seven_eighths toFixed1_zero toFixed1_one)

text \<open>
  Claim C9, as the code has it. The coordinates of the path are printed by
  \<open>toFixed(1)\<close>, and the token it prints for a coordinate of magnitude below \<open>10^21\<close>
  denotes the coordinate rounded to the nearest tenth, a tie going away from zero: at
  most \<open>0.05\<close> away from the coordinate. The digits beyond the first are not cut off.
\<close>

theorem getSmoothPath_coordinates_rounded:
  "getSmoothPath ts pts =
     (if length pts < 2 then []
      else moveTo (toFixed1 ts) (hd pts) @ concat (interiorSegments (toFixed1 ts) pts)
           @ smoothTo (toFixed1 ts) (last pts))
   \<and> (\<forall>v. \<bar>v\<bar> < 10 ^ 21 \<longrightarrow>
          readFixed1 (toFixed1 ts v) = roundTenth v \<and> \<bar>readFixed1 (toFixed1 ts v) - v\<bar> \<le> 1 / 20)"
proof -
  have hd0: "length pts \<ge> 2 \<Longrightarrow> pts ! 0 = hd pts"
    by (cases pts) auto
  have lastn: "length pts \<ge> 2 \<Longrightarrow> pts ! (length pts - 1) = last pts"
    by (cases pts) (auto simp: last_conv_nth)
  have shape: "getSmoothPath ts pts =
     (if length pts < 2 then []
      else moveTo (toFixed1 ts) (hd pts) @ concat (interiorSegments (toFixed1 ts) pts)
           @ smoothTo (toFixed1 ts) (last pts))"
    using hd0 lastn by (auto simp: getSmoothPath_segments)
  have tokens: "readFixed1 (toFixed1 ts v) = roundTenth v \<and> \<bar>readFixed1 (toFixed1 ts v) - v\<bar> \<le> 1 / 20"
    if "\<bar>v\<bar> < 10 ^ 21" for v
    using that readFixed1_toFixed1 [of v ts] roundTenth_close [of v] by simp
  show ?thesis
    using shape tokens by blast
qed

text \<open>The theorem at the coordinate \<open>0.875\<close> and a path of two points.\<close>

theorem getSmoothPath_coordinates_rounded_witness:
  "\<bar>7 / 8\<bar> < (10 :: real) ^ 21
   \<and> readFixed1 (toFixed1 (\<lambda>v. []) (7 / 8)) = 9 / 10
   \<and> getSmoothPath (\<lambda>v. []) [\<lparr>px = 7 / 8, py = 0\<rparr>, \<lparr>px = 1, py = 1\<rparr>] =
       moveTo (toFixed1 (\<lambda>v. [])) \<lparr>px = 7 / 8, py = 0\<rparr> @ smoothTo (toFixed1 (\<lambda>v. [])) \<lparr>px = 1, py = 1\<rparr>"
proof -
  have small: "\<bar>7 / 8\<bar> < (10 :: real) ^ 21"
    by simp
  have r: "roundTenth (7 / 8) = 9 / 10"
    by (simp add: roundTenth_def)
  note inst = getSmoothPath_coordinates_rounded
    [of "\<lambda>v. []" "[\<lparr>px = 7 / 8, py = 0\<rparr>, \<lparr>px = 1, py = 1\<rparr>]"]
  from inst have "readFixed1 (toFixed1 (\<lambda>v. []) (7 / 8)) = roundTenth (7 / 8)"
    using small by blast
  moreover from inst have
    "getSmoothPath (\<lambda>v. []) [\<lparr>px = 7 / 8, py = 0\<rparr>, \<lparr>px = 1, py = 1\<rparr>] =
       moveTo (toFixed1 (\<lambda>v. [])) \<lparr>px = 7 / 8, py = 0\<rparr> @ smoothTo (toFixed1 (\<lambda>v. [])) \<lparr>px = 1, py = 1\<rparr>"
    by (simp add: interiorSegments_def)
  ultimately show ?thesis
    using small r by simp
qed

text \<open>
  Claim C9, as the specification words it, fails. The coordinate \<open>0.875\<close> is printed
  as \<open>0.9\<close>, and cut off after its first fractional digit it is \<open>0.8\<close>; a coordinate
  of \<open>10^21\<close> is printed as the runtime prints it, \<open>1e+21\<close> in JavaScript, with no
  fractional digit at all.
\<close>

theorem getSmoothPath_truncation_counterexample:
  "getSmoothPath (\<lambda>v. []) [\<lparr>px = 7 / 8, py = 0\<rparr>, \<lparr>px = 1, py = 1\<rparr>] = ''M 0.9 0.0 T 1.0 1.0''
   \<and> readFixed1 ''0.9'' = 9 / 10
   \<and> truncTenth (7 / 8) = 8 / 10
   \<and> readFixed1 ''0.9'' \<noteq> truncTenth (7 / 8)
   \<and> toFixed1 (\<lambda>v. ''1e+21'') (10 ^ 21) = ''1e+21''"
proof -
  have a: "readFixed1 ''0.9'' = 9 / 10"
    by (simp add: readFixed1_def readUnsigned_def readDigits_def digit_val_def)
  have b: "truncTenth (7 / 8) = 8 / 10"
    by (simp add: truncTenth_def js_trunc_def)
  have c: "toFixed1 (\<lambda>v. ''1e+21'') (10 ^ 21) = ''1e+21''"
    by (simp add: toFixed1_def)
  show ?thesis
    using path_seven_eighths [of "\<lambda>v. []"] a b c by simp
qed

section \<open>The overlay of stored fragments\<close>

lemma join_space_concat:
  "ys \<noteq> [] \<Longrightarrow> sep @ join sep ys = concat (map (\<lambda>y. sep @ y) ys)"
proof (induction sep ys rule: join.induct)
  case (1 sep)
  then show ?case by simp
next
  case (2 sep s)
  show ?case by simp
next
  case (3 sep s t rest)
  then show ?case by simp
qed

lemma renderStroke_polyline:
  "renderStroke ts s =
     (if isEraser s \<or> length (stroke_points s) < 2 then None else Some (polyline ts s))"
proof (cases "length (stroke_points s) < 2")
  case True
  then show ?thesis by (simp add: renderStroke_def)
next
  case False
  then obtain q0 q1 rest where pts: "stroke_points s = q0 # q1 # rest"
    by (cases "stroke_points s"; cases "tl (stroke_points s)") auto
  have "'' '' @ join '' '' (map (\<lambda>q. ''L '' @ ts (px q) @ '' '' @ ts (py q)) (q1 # rest))
        = concat (map (\<lambda>y. '' '' @ y) (map (\<lambda>q. ''L '' @ ts (px q) @ '' '' @ ts (py q)) (q1 # rest)))"
    by (rule join_space_concat) simp
  then have d: "''M '' @ ts (px q0) @ '' '' @ ts (py q0) @ '' ''
         @ join '' '' (map (\<lambda>q. ''L '' @ ts (px q) @ '' '' @ ts (py q)) (q1 # rest))
       = polylineData ts (q0 # q1 # rest)"
    by (simp add: polylineData_def coordPair_def comp_def)
  show ?thesis
    using False d by (simp add: renderStroke_def Let_def pts polyline_def)
qed

text \<open>
  Claim C10. The callback that paints a stroke returns nothing for a stroke whose
  \<open>isEraser\<close> flag is set and for a stroke of fewer than 2 points, and for every
  other stroke the path that is the polyline through its points in their stored order,
  in the stroke's colour and width. So the overlay of the frame being rendered holds,
  for each drawing stored under that frame, the polylines of exactly its strokes that
  are no eraser strokes and have at least 2 points.
\<close>

theorem overlay_skips_erasers:
  "renderStroke ts s =
     (if isEraser s \<or> length (stroke_points s) < 2 then None else Some (polyline ts s))
   \<and> renderOverlay ts drawings frame =
       map (\<lambda>d. (frag_id d,
                 map (polyline ts)
                   (filter (\<lambda>s. \<not> isEraser s \<and> 2 \<le> length (stroke_points s)) (strokes d))))
         (case drawings frame of None \<Rightarrow> [] | Some ds \<Rightarrow> ds)"
proof -
  have mf: "List.map_filter (renderStroke ts) ss =
            map (polyline ts) (filter (\<lambda>s. \<not> isEraser s \<and> 2 \<le> length (stroke_points s)) ss)" for ss
    by (induction ss) (auto simp: renderStroke_polyline)
  show ?thesis
    by (simp add: renderStroke_polyline renderOverlay_def renderDrawing_def activeDrawings_def mf)
qed


section \<open>Frames and fragments\<close>

lemma activeDrawings_addToFrame:
  "activeDrawings (addToFrame m f) n =
     activeDrawings m n @ (if frameNumber f = n then [f] else [])"
  by (auto simp: activeDrawings_def addToFrame_def Let_def split: option.splits)

lemma activeDrawings_foldl:
  "activeDrawings (foldl addToFrame m fs) n =
     activeDrawings m n @ filter (\<lambda>f. frameNumber f = n) fs"
  by (induction fs arbitrary: m) (simp_all add: activeDrawings_addToFrame)

lemma activeDrawings_groupByFrame:
  "activeDrawings (groupByFrame fs) n = filter (\<lambda>f. frameNumber f = n) fs"
  by (simp add: groupByFrame_def activeDrawings_foldl) (simp add: activeDrawings_def)

text \<open>
  Claim C1 at the elapsed time 0. The fragment drawn while the clock is frozen at 0 is
  stored with frame number 1. One loop later, at the elapsed time 60000, the frame
  rendered has the index 601: it is not the index 1 again, it is above the loop length
  of 600, and the fragment is not among the drawings shown.
\<close>

theorem frame_index_exceeds_loop:
  "frameNumber (newFragment uuid now dims 0 ss a) = 1
   \<and> currentFrame (renderFrame ts noiseRef (Some (w, h)) (0 + 60000) c) = 601
   \<and> 600 < currentFrame (renderFrame ts noiseRef (Some (w, h)) (0 + 60000) c)
   \<and> activeDrawings (groupByFrame [newFragment uuid now dims 0 ss a])
        (currentFrame (renderFrame ts noiseRef (Some (w, h)) (0 + 60000) c)) = []
   \<and> renderOverlay ts (groupByFrame [newFragment uuid now dims 0 ss a])
        (currentFrame (renderFrame ts noiseRef (Some (w, h)) (0 + 60000) c)) = []"
  by (simp add: activeDrawings_groupByFrame renderOverlay_def renderFrame_def Let_def
      newFragment_def getFrameNumber_def)

section \<open>Persistence\<close>









section \<open>The path sampler\<close>

lemma upt7: "[0..<7] = [0, 1, 2, 3, 4, 5, 6]"
  by (simp add: upt_rec)




text \<open>
  Claim C5. With the generator in place \<open>generatePoints\<close> returns 7 points. The
  first has \<open>x = 0\<close> and the last has \<open>x = w\<close>, the width; the noise is added to
  \<open>x\<close> at the indices 1 to 5 only, and to \<open>y\<close> at every index.
\<close>

theorem generatePoints_endpoints_pinned:
  "generatePoints (Some g) t w h =
     (let angle = js_rem t LOOP_DURATION_MS / LOOP_DURATION_MS * pi * 2;
          timeX = cos angle * NOISE_RADIUS;
          timeY = sin angle * NOISE_RADIUS
      in map (\<lambda>i. \<lparr>px = (if i = 0 then 0
                         else if i = 6 then w
                         else w * (real i / 6)
                              + noise3D g (real i * SPATIAL_FREQUENCY) (10 + timeX) (10 + timeY) * (w * 0.15)),
                   py = h / 2
                        + noise3D g (real i * SPATIAL_FREQUENCY + 100) (20 + timeX) (20 + timeY) * (h * 0.4)\<rparr>)
           [0, 1, 2, 3, 4, 5, 6])
   \<and> length (generatePoints (Some g) t w h) = 7
   \<and> px (generatePoints (Some g) t w h ! 0) = 0
   \<and> px (generatePoints (Some g) t w h ! 6) = w"
  by (simp add: generatePoints_def generatePoint_def Let_def POINT_COUNT_def upt7)

section \<open>The noise generator\<close>

subsection \<open>The shuffle\<close>

lemma length_swapEntries: "length (swapEntries p i r) = length p"
  by (simp add: swapEntries_def Let_def)

lemma set_swapEntries:
  assumes "i < length p"
  shows "set (swapEntries p i r) \<subseteq> insert 0 (set p)"
proof (cases "0 \<le> r \<and> r < int (length p)")
  case True
  then have r: "nat r < length p" by linarith
  have "set (p[i := p ! nat r, nat r := p ! i]) \<subseteq> insert (p ! i) (insert (p ! nat r) (set p))"
    by (meson set_update_subset_insert subset_trans insert_mono)
  moreover have "p ! i \<in> set p" "p ! nat r \<in> set p"
    using assms r by simp_all
  ultimately show ?thesis
    using True by (auto simp: swapEntries_def Let_def)
next
  case False
  have "set (p[i := 0]) \<subseteq> insert 0 (set p)"
    by (rule set_update_subset_insert)
  then show ?thesis
    using False by (auto simp: swapEntries_def Let_def)
qed

lemma mset_swapEntries:
  assumes "i < length p" and "0 \<le> r" and "r < int (length p)"
  shows "mset (swapEntries p i r) = mset p"
proof -
  have "nat r < length p" using assms by linarith
  then have "mset (p[i := p ! nat r, nat r := p ! i]) = mset p"
    using assms(1) by (rule mset_swap)
  then show ?thesis
    using assms by (simp add: swapEntries_def Let_def)
qed

lemma swapEntries_negative: "r < 0 \<Longrightarrow> swapEntries p i r = p[i := 0]"
  by (simp add: swapEntries_def Let_def)

lemma shuffle_step:
  "shuffle (Suc n) c p =
     shuffle n (nextSeed c)
       (swapEntries p (Suc n) \<lfloor>real_of_int (nextSeed c) / 4294967296 * real (Suc n + 1)\<rfloor>)"
  by (simp add: shuffle.simps(2) Let_def nextRandom_def)

lemma shuffle_length: "length (shuffle n c p) = length p"
  by (induction n arbitrary: c p) (simp_all add: shuffle_step length_swapEntries)

lemma shuffle_entries: "n < length p \<Longrightarrow> set (shuffle n c p) \<subseteq> insert 0 (set p)"
proof (induction n arbitrary: c p)
  case 0
  then show ?case by auto
next
  case (Suc n)
  let ?p2 = "swapEntries p (Suc n) \<lfloor>real_of_int (nextSeed c) / 4294967296 * real (Suc n + 1)\<rfloor>"
  have "n < length ?p2"
    using Suc.prems by (simp add: length_swapEntries)
  then have "set (shuffle n (nextSeed c) ?p2) \<subseteq> insert 0 (set ?p2)"
    by (rule Suc.IH)
  moreover have "set ?p2 \<subseteq> insert 0 (set p)"
    using Suc.prems by (rule set_swapEntries)
  ultimately show ?case
    by (auto simp: shuffle_step)
qed

text \<open>
  From a seed that is not negative every \<open>currentSeed\<close> is in \<open>[0, 2^32)\<close>, so
  every index \<open>r\<close> is in \<open>[0, i]\<close> and every step is a swap inside the table.
\<close>

lemma nextSeed_range: "0 \<le> c \<Longrightarrow> 0 \<le> nextSeed c \<and> nextSeed c < 4294967296"
  by (simp add: nextSeed_def js_rem_int_def)

lemma random_index_range:
  assumes "0 \<le> s" and "s < 4294967296"
  shows "0 \<le> \<lfloor>real_of_int s / 4294967296 * real (i + 1)\<rfloor>"
    and "\<lfloor>real_of_int s / 4294967296 * real (i + 1)\<rfloor> < int (i + 1)"
proof -
  have nonneg: "0 \<le> real_of_int s / 4294967296 * real (i + 1)"
    using assms by simp
  then show "0 \<le> \<lfloor>real_of_int s / 4294967296 * real (i + 1)\<rfloor>"
    by simp
  have "real_of_int s / 4294967296 < 1"
    using assms by simp
  then have "real_of_int s / 4294967296 * real (i + 1) < 1 * real (i + 1)"
    by (intro mult_strict_right_mono) simp_all
  then show "\<lfloor>real_of_int s / 4294967296 * real (i + 1)\<rfloor> < int (i + 1)"
    by (simp add: floor_less_iff)
qed

lemma shuffle_mset:
  "0 \<le> c \<Longrightarrow> n < length p \<Longrightarrow> mset (shuffle n c p) = mset p"
proof (induction n arbitrary: c p)
  case 0
  then show ?case by simp
next
  case (Suc n)
  let ?r = "\<lfloor>real_of_int (nextSeed c) / 4294967296 * real (Suc n + 1)\<rfloor>"
  let ?p2 = "swapEntries p (Suc n) ?r"
  have s: "0 \<le> nextSeed c" "nextSeed c < 4294967296"
    using nextSeed_range [OF Suc.prems(1)] by simp_all
  have r0: "0 \<le> ?r"
    using s by (rule random_index_range(1))
  have "?r < int (Suc n + 1)"
    using s by (rule random_index_range(2))
  then have r_in: "?r < int (length p)"
    using Suc.prems(2) by linarith
  have step: "mset ?p2 = mset p"
    using Suc.prems(2) r0 r_in by (rule mset_swapEntries)
  have "n < length ?p2"
    using Suc.prems(2) by (simp add: length_swapEntries)
  then have "mset (shuffle n (nextSeed c) ?p2) = mset ?p2"
    using s(1) by (intro Suc.IH)
  then show ?case
    using step by (simp add: shuffle_step)
qed

subsection \<open>A negative seed\<close>

lemma nextSeed_minus_1000: "nextSeed (- 1000) = - 650620777"
  by (simp add: nextSeed_def js_rem_int_def)

lemma first_index_minus_1000: "\<lfloor>real_of_int (- 650620777) / 4294967296 * real (Suc 254 + 1)\<rfloor> = - 39"
  by simp

lemma upt_256_last_zero: "[0..<256][255 := 0] = [0..<255] @ [0]"
proof -
  have "[0..<256] = [0..<255] @ [255]"
    using upt_Suc_append [of 0 255] by simp
  then show ?thesis
    by (simp add: list_update_append)
qed

lemma first_swap_negative:
  "swapEntries [0..<256] (Suc 254) \<lfloor>real_of_int (nextSeed (- 1000)) / 4294967296 * real (Suc 254 + 1)\<rfloor>
   = [0..<255] @ [0]"
proof -
  have "swapEntries [0..<256] (Suc 254) (- 39) = [0..<256][Suc 254 := 0]"
    by (rule swapEntries_negative) simp
  also have "\<dots> = [0..<255] @ [0]"
    using upt_256_last_zero by simp
  finally show ?thesis
    by (simp only: nextSeed_minus_1000 first_index_minus_1000)
qed

text \<open>
  Claim C7 at the seed \<open>-1000\<close>. The seed stays \<open>-1000\<close>; the first call of
  \<open>nextRandom\<close> leaves \<open>currentSeed = -650620777\<close>, since \<open>%\<close> keeps the sign of
  a negative dividend, so the first index \<open>r\<close> is \<open>-39\<close>: the swap stores 0 at
  \<open>p[255]\<close> and the 255 it should have moved is dropped. No later step brings it
  back, so the table of the generator does not contain 255: it is no permutation of
  \<open>0..255\<close>.
\<close>

theorem negative_seed_loses_entry:
  "normalizeSeed (- 1000) = - 1000
   \<and> nextSeed (- 1000) = - 650620777
   \<and> 255 \<notin> set (p_tab (newSimplexNoise (- 1000)))
   \<and> set (p_tab (newSimplexNoise (- 1000))) \<noteq> {0..<256}"
proof -
  have ns: "normalizeSeed (- 1000) = - 1000"
    by (simp add: normalizeSeed_def)
  note nx = nextSeed_minus_1000
  have "shuffle (Suc 254) (- 1000) [0..<256] = shuffle 254 (nextSeed (- 1000)) ([0..<255] @ [0])"
    by (simp only: shuffle_step first_swap_negative)
  then have "shuffle 255 (- 1000) [0..<256] = shuffle 254 (nextSeed (- 1000)) ([0..<255] @ [0])"
    by simp
  moreover have "set (shuffle 254 (nextSeed (- 1000)) ([0..<255] @ [0])) \<subseteq> insert 0 (set ([0..<255] @ [0]))"
    by (rule shuffle_entries) simp
  ultimately have "set (shuffle 255 (- 1000) [0..<256]) \<subseteq> {0..<255}"
    by auto
  then have "255 \<notin> set (shuffle 255 (- 1000) [0..<256])"
    by auto
  then have a: "255 \<notin> set (p_tab (newSimplexNoise (- 1000)))"
    by (simp add: newSimplexNoise_def Let_def ns)
  then have "set (p_tab (newSimplexNoise (- 1000))) \<noteq> {0..<256}"
    by auto
  then show ?thesis
    using ns nx a by simp
qed

subsection \<open>The doubled tables\<close>

lemma and_255_nat: "and (i :: nat) 255 = i mod 256"
proof -
  have "and i (mask 8) = take_bit 8 i"
    by (simp only: take_bit_eq_mask)
  then show ?thesis
    by (simp add: take_bit_eq_mod mask_eq_exp_minus_1)
qed

lemma fillStep_fst: "fst (fillStep p tabs i) = (fst tabs)[i := p ! (and i 255)]"
  by (simp add: fillStep_def Let_def)

lemma fillStep_snd:
  "snd (fillStep p tabs i) = (snd tabs)[i := ((fst tabs)[i := p ! (and i 255)] ! i) mod 12]"
  by (simp add: fillStep_def Let_def)

lemma fill_prefix:
  assumes "length a = 512" and "length b = 512"
  shows "n \<le> 512 \<Longrightarrow>
         length (fst (foldl (fillStep p) (a, b) [0..<n])) = 512
         \<and> length (snd (foldl (fillStep p) (a, b) [0..<n])) = 512
         \<and> (\<forall>i<n. fst (foldl (fillStep p) (a, b) [0..<n]) ! i = p ! (i mod 256)
                   \<and> snd (foldl (fillStep p) (a, b) [0..<n]) ! i =
                       fst (foldl (fillStep p) (a, b) [0..<n]) ! i mod 12)"
proof (induction n)
  case 0
  then show ?case using assms by simp
next
  case (Suc n)
  let ?t = "foldl (fillStep p) (a, b) [0..<n]"
  have IH: "length (fst ?t) = 512" "length (snd ?t) = 512"
    "\<forall>i<n. fst ?t ! i = p ! (i mod 256) \<and> snd ?t ! i = fst ?t ! i mod 12"
    using Suc by simp_all
  have step: "foldl (fillStep p) (a, b) [0..<Suc n] = fillStep p ?t n"
    by simp
  have n: "n < 512" using Suc.prems by simp
  show ?case
    unfolding step fillStep_fst fillStep_snd
    using IH n by (auto simp: nth_list_update and_255_nat)
qed

lemma fillTables_wrap:
  assumes "i < 512"
  shows "fst (fillTables p) ! i = p ! (i mod 256)"
    and "snd (fillTables p) ! i = fst (fillTables p) ! i mod 12"
    and "length (fst (fillTables p)) = 512"
    and "length (snd (fillTables p)) = 512"
  using fill_prefix [of "replicate 512 0" "replicate 512 0" 512 p] assms
  by (simp_all add: fillTables_def)

lemma newSimplexNoise_fields:
  "p_tab (newSimplexNoise s) = shuffle 255 (normalizeSeed s) [0..<256]"
  "perm (newSimplexNoise s) = fst (fillTables (p_tab (newSimplexNoise s)))"
  "permMod12 (newSimplexNoise s) = snd (fillTables (p_tab (newSimplexNoise s)))"
  "grad3 (newSimplexNoise s) = grad3_init"
  by (simp_all add: newSimplexNoise_def Let_def)

text \<open>
  For every seed the two 512-entry tables repeat the 256-entry table, and for a seed
  that is not negative after its normalisation that table is a permutation of
  \<open>0..255\<close>.
\<close>

lemma tables_wrap:
  assumes "i < 512"
  shows "perm (newSimplexNoise s) ! i = p_tab (newSimplexNoise s) ! (i mod 256)
         \<and> permMod12 (newSimplexNoise s) ! i = perm (newSimplexNoise s) ! i mod 12"
  using fillTables_wrap(1,2) [OF assms, of "p_tab (newSimplexNoise s)"]
  by (simp only: newSimplexNoise_fields(2,3))

lemma table_is_permutation:
  assumes "0 \<le> normalizeSeed s"
  shows "mset (p_tab (newSimplexNoise s)) = mset [0..<256]"
proof -
  have "mset (shuffle 255 (normalizeSeed s) [0..<256]) = mset [0..<256]"
    using assms by (rule shuffle_mset) simp
  then show ?thesis
    by (simp only: newSimplexNoise_fields(1))
qed

text \<open>
  Every entry of the tables is a byte, so no store into a \<open>Uint8Array\<close> wraps, and
  every index \<open>noise3D\<close> hashes to is inside the 512 entries.
\<close>

lemma table_entries_bounded:
  shows "length (p_tab (newSimplexNoise s)) = 256"
    and "v \<in> set (p_tab (newSimplexNoise s)) \<Longrightarrow> v < 256"
    and "i < 512 \<Longrightarrow> perm (newSimplexNoise s) ! i < 256"
    and "i < 512 \<Longrightarrow> permMod12 (newSimplexNoise s) ! i < 12"
proof -
  show len: "length (p_tab (newSimplexNoise s)) = 256"
    by (simp add: newSimplexNoise_fields(1) shuffle_length)
  have "set (shuffle 255 (normalizeSeed s) [0..<256]) \<subseteq> insert 0 (set [0..<256])"
    by (rule shuffle_entries) simp
  then have sub: "set (p_tab (newSimplexNoise s)) \<subseteq> {0..<256}"
    by (auto simp: newSimplexNoise_fields(1))
  then show "v \<in> set (p_tab (newSimplexNoise s)) \<Longrightarrow> v < 256"
    by auto
  show "perm (newSimplexNoise s) ! i < 256" if "i < 512"
  proof -
    have "i mod 256 < length (p_tab (newSimplexNoise s))"
      by (simp add: len)
    then have "p_tab (newSimplexNoise s) ! (i mod 256) \<in> set (p_tab (newSimplexNoise s))"
      by (rule nth_mem)
    then show ?thesis
      using sub tables_wrap [OF that, of s] by auto
  qed
  show "permMod12 (newSimplexNoise s) ! i < 12" if "i < 512"
    using tables_wrap [OF that, of s] by simp
qed

lemma hash_index_in_range:
  assumes "ii < 256" and "jj < 256" and "kk < 256" and "i1 \<le> 1" and "j1 \<le> 1" and "k1 \<le> 1"
  shows "ii + i1 + perm (newSimplexNoise s) ! (jj + j1 + perm (newSimplexNoise s) ! (kk + k1)) < 512"
proof -
  have "kk + k1 < 512"
    using assms by simp
  then have a: "perm (newSimplexNoise s) ! (kk + k1) < 256"
    by (rule table_entries_bounded(3))
  then have "jj + j1 + perm (newSimplexNoise s) ! (kk + k1) < 512"
    using assms by simp
  then have "perm (newSimplexNoise s) ! (jj + j1 + perm (newSimplexNoise s) ! (kk + k1)) < 256"
    by (rule table_entries_bounded(3))
  then show ?thesis
    using assms by simp
qed

subsection \<open>Determinism\<close>

lemma corner3D_reads_tables:
  assumes "permMod12 g = permMod12 g'" and "grad3 g = grad3 g'"
  shows "corner3D g = corner3D g'"
  by (intro ext) (simp only: corner3D_def assms)

lemma noise3D_reads_tables:
  assumes "perm g = perm g'" and "permMod12 g = permMod12 g'" and "grad3 g = grad3 g'"
  shows "noise3D g x y z = noise3D g' x y z"
  by (simp only: noise3D_def assms(1) corner3D_reads_tables [OF assms(2,3)])

text \<open>
  Claim C2. Two generators constructed from the same seed have the same \<open>perm\<close> and
  \<open>permMod12\<close> tables and \<open>noise3D\<close> returns the same number from both; and
  \<open>noise3D\<close> reads nothing of a generator but its \<open>perm\<close>, \<open>permMod12\<close> and
  \<open>grad3\<close> tables: any two generators that agree on the three give the same value at
  the same arguments.
\<close>

theorem same_seed_same_noise:
  "(s = s' \<longrightarrow>
      perm (newSimplexNoise s) = perm (newSimplexNoise s')
      \<and> permMod12 (newSimplexNoise s) = permMod12 (newSimplexNoise s')
      \<and> noise3D (newSimplexNoise s) x y z = noise3D (newSimplexNoise s') x y z)
   \<and> (perm g = perm g' \<and> permMod12 g = permMod12 g' \<and> grad3 g = grad3 g' \<longrightarrow>
        noise3D g x y z = noise3D g' x y z)"
proof (intro conjI impI)
  assume "s = s'"
  then show "perm (newSimplexNoise s) = perm (newSimplexNoise s')"
    and "permMod12 (newSimplexNoise s) = permMod12 (newSimplexNoise s')"
    and "noise3D (newSimplexNoise s) x y z = noise3D (newSimplexNoise s') x y z"
    by simp_all
next
  assume "perm g = perm g' \<and> permMod12 g = permMod12 g' \<and> grad3 g = grad3 g'"
  then show "noise3D g x y z = noise3D g' x y z"
    using noise3D_reads_tables [of g g' x y z] by blast
qed

text \<open>
  The theorem at the seed of the animation, and at two generator objects that differ
  in \<open>p\<close> only.
\<close>

theorem same_seed_same_noise_witness:
  "FIXED_SEED = 12345
   \<and> noise3D (newSimplexNoise FIXED_SEED) (3 / 10) 96 10 = noise3D (newSimplexNoise 12345) (3 / 10) 96 10
   \<and> perm (flatNoise []) = perm (flatNoise [1])
   \<and> flatNoise [] \<noteq> flatNoise [1]
   \<and> noise3D (flatNoise []) (3 / 10) 96 10 = noise3D (flatNoise [1]) (3 / 10) 96 10"
proof -
  have seed: "FIXED_SEED = 12345"
    by (simp add: FIXED_SEED_def)
  have tabs: "perm (flatNoise []) = perm (flatNoise [1]) \<and> permMod12 (flatNoise []) = permMod12 (flatNoise [1])
              \<and> grad3 (flatNoise []) = grad3 (flatNoise [1])"
    by (simp add: flatNoise_def)
  have differ: "flatNoise [] \<noteq> flatNoise [1]"
    by (simp add: flatNoise_def)
  note inst = same_seed_same_noise
    [of FIXED_SEED 12345 "3 / 10" 96 10 "flatNoise []" "flatNoise [1]"]
  show ?thesis
    using inst seed tabs differ by blast
qed

end
